theory Spec2Isabelle
  imports Complex_Main "HOL-Library.Log_Nat"
begin

section \<open>Data model of the study interface\<close>

text \<open>
  The four study functions of the repository (\<^verbatim>\<open>scsf_SMA_Crossover_Trading\<close>,
  \<^verbatim>\<open>scsf_EMA_Crossover_Trading\<close>, \<^verbatim>\<open>scsf_ZLEMA_Crossover_Trading\<close>,
  \<^verbatim>\<open>scsf_Hull_Crossover_Trading\<close>) receive one reference \<^verbatim>\<open>sc\<close> to the host's study
  interface. They read and write its members and call its member functions. The members the
  functions touch are the fields of the record \<open>SCStudyInterface\<close> below; the member
  functions that compute (the four moving averages and \<^verbatim>\<open>sc.CrossOver\<close>) are the fields of
  the record \<open>host\<close>; the member functions that trade are recorded, in call order, as a
  list of \<open>request\<close>s.

  The elements of the data arrays are reals: the study functions only hand the arrays to
  the host. The tick size is a \<^verbatim>\<open>float\<close>, and lines 111 and 112 multiply it with an
  \<^verbatim>\<open>int\<close>: the \<^verbatim>\<open>int\<close> is converted to \<^verbatim>\<open>float\<close> and the product is formed in
  single precision. The offset of the order receives the product unchanged. This
  arithmetic is modelled below.
  The value an entry call returns goes to the local variable \<^verbatim>\<open>Result\<close>, which is
  never read, and is left out.
\<close>

subsection \<open>Single-precision arithmetic\<close>

text \<open>
  A \<^verbatim>\<open>float\<close> is a finite value, an infinity or a NaN. The finite values of the format
  are the numbers \<open>m * 2 ^ e\<close> with \<open>\<bar>m\<bar> < 2 ^ 24\<close> and \<open>- 149 \<le> e \<le> 104\<close>. The two
  zeros are one value here, and so are all NaNs.
\<close>

datatype float = Finite real | PlusInfinity | MinusInfinity | NaN

text \<open>The nearest integer, the even one of two that are equally near.\<close>

definition round_even :: "real \<Rightarrow> int" where
  "round_even y =
     (let f = \<lfloor>y\<rfloor>; r = y - real_of_int f
      in if r < 1 / 2 then f else if r > 1 / 2 then f + 1 else if even f then f else f + 1)"

text \<open>
  Rounding of a magnitude to 24 significant bits, no bit below \<open>2 ^ - 149\<close>: in units of
  \<open>2 ^ - 149\<close> the magnitude is rounded to a multiple of \<open>2 ^ k\<close>, where \<open>k\<close> is the
  number of bits its integer part has beyond 24.
\<close>

definition round_magnitude :: "real \<Rightarrow> real" where
  "round_magnitude a =
     (let y = a * 2 ^ 149; k = nat (bitlen \<lfloor>y\<rfloor> - 24)
      in real_of_int (round_even (y / 2 ^ k)) * 2 ^ k / 2 ^ 149)"

text \<open>
  Rounding to nearest, ties to even, of a real to a \<^verbatim>\<open>float\<close>: a magnitude that rounds
  to \<open>2 ^ 128\<close> or more overflows to the infinity of its sign.
\<close>

definition round_to_float :: "real \<Rightarrow> float" where
  "round_to_float x =
     (let m = round_magnitude \<bar>x\<bar>
      in if m \<ge> 2 ^ 128 then (if x < 0 then MinusInfinity else PlusInfinity)
         else Finite (if x < 0 then - m else m))"

text \<open>The conversion of an \<^verbatim>\<open>int\<close> operand to \<^verbatim>\<open>float\<close>, and the product of two floats.\<close>

definition float_of_int :: "int \<Rightarrow> float" where
  "float_of_int i = round_to_float (real_of_int i)"

fun float_mul :: "float \<Rightarrow> float \<Rightarrow> float" where
  "float_mul NaN y = NaN"
| "float_mul x NaN = NaN"
| "float_mul (Finite a) (Finite b) = round_to_float (a * b)"
| "float_mul (Finite a) y =
     (if a = 0 then NaN else if (a < 0) = (y = MinusInfinity) then PlusInfinity else MinusInfinity)"
| "float_mul x (Finite b) =
     (if b = 0 then NaN else if (b < 0) = (x = MinusInfinity) then PlusInfinity else MinusInfinity)"
| "float_mul x y = (if x = y then PlusInfinity else MinusInfinity)"

subsection \<open>The members of the interface\<close>

datatype input_value = NO_VALUE | INT_VALUE int | OHLC_VALUE nat

record SCInput =
  Name :: string
  InputValue :: input_value

text \<open>\<^verbatim>\<open>SetInt\<close> and \<^verbatim>\<open>SetInputDataIndex\<close> store a value together with its kind.\<close>

definition SetInt :: "int \<Rightarrow> SCInput \<Rightarrow> SCInput" where
  "SetInt v i = i\<lparr>InputValue := INT_VALUE v\<rparr>"

definition SetInputDataIndex :: "nat \<Rightarrow> SCInput \<Rightarrow> SCInput" where
  "SetInputDataIndex v i = i\<lparr>InputValue := OHLC_VALUE v\<rparr>"

text \<open>
  \<^verbatim>\<open>GetInt\<close> reads an input as an integer whatever its kind: for an input that holds
  an input-data index it is that index. \<^verbatim>\<open>GetInputDataIndex\<close> reads an input as an
  index into \<^verbatim>\<open>sc.BaseDataIn\<close>. Both belong to the host's header, which the
  repository includes and does not contain.
\<close>

definition GetInt :: "SCInput \<Rightarrow> int" where
  "GetInt i = (case InputValue i of NO_VALUE \<Rightarrow> 0 | INT_VALUE v \<Rightarrow> v | OHLC_VALUE k \<Rightarrow> int k)"

definition GetInputDataIndex :: "SCInput \<Rightarrow> nat" where
  "GetInputDataIndex i = (case InputValue i of NO_VALUE \<Rightarrow> 0 | INT_VALUE v \<Rightarrow> nat v | OHLC_VALUE k \<Rightarrow> k)"

text \<open>The indices of the base data arrays, as the host's header numbers them.\<close>

definition SC_OPEN :: nat where "SC_OPEN = 0"
definition SC_HIGH :: nat where "SC_HIGH = 1"
definition SC_LOW :: nat where "SC_LOW = 2"
definition SC_LAST :: nat where "SC_LAST = 3"

datatype draw_style = DRAWSTYLE_IGNORE | DRAWSTYLE_LINE

datatype color = RGB nat nat nat

record SCSubgraph =
  SubgraphName :: string
  DrawStyle :: draw_style
  PrimaryColor :: color
  Data :: "real list"

datatype bar_closed_status = BHCS_SET_DEFAULTS | BHCS_BAR_HAS_CLOSED | BHCS_BAR_HAS_NOT_CLOSED

datatype cross = NO_CROSS | CROSS_FROM_TOP | CROSS_FROM_BOTTOM

datatype order_type =
  SCT_ORDERTYPE_MARKET | SCT_ORDERTYPE_LIMIT | SCT_ORDERTYPE_STOP | SCT_ORDERTYPE_TRAILING_STOP

datatype time_in_force = SCT_TIF_DAY | SCT_TIF_GOOD_TILL_CANCELED

record s_SCNewOrder =
  OrderQuantity :: int
  OrderType :: order_type
  TimeInForce :: time_in_force
  AttachedOrderTarget1Type :: order_type
  AttachedOrderStop1Type :: order_type
  Target1Offset :: float
  Stop1Offset :: float

record s_SCPositionData =
  PositionQuantity :: int

text \<open>The trading calls a study function makes, in the order it makes them.\<close>

datatype request =
  CancelAllOrders | FlattenPosition | BuyEntry s_SCNewOrder | SellEntry s_SCNewOrder

record SCStudyInterface =
  SetDefaults :: bool
  GraphName :: string
  AutoLoop :: int
  GraphRegion :: int
  Input :: "nat \<Rightarrow> SCInput"
  Subgraph :: "nat \<Rightarrow> SCSubgraph"
  BaseDataIn :: "nat \<Rightarrow> real list"
  Index :: nat
  TickSize :: float
  BarHasClosedStatus :: bar_closed_status
  TradePosition :: s_SCPositionData
  AllowMultipleEntriesInSameDirection :: bool
  MaximumPositionAllowed :: int
  SupportReversals :: bool
  SendOrdersToTradeService :: bool
  AllowOppositeEntryWithOpposingPositionOrOrders :: bool
  SupportAttachedOrdersForTrading :: bool
  CancelAllOrdersOnEntriesAndReversals :: bool
  AllowEntryWithWorkingOrders :: bool
  CancelAllWorkingOrdersOnExit :: bool
  AllowOnlyOneTradePerBar :: bool
  MaintainTradeStatisticsAndTradesData :: bool

text \<open>
  \<^verbatim>\<open>sc.GetBarHasClosedStatus()\<close> and \<^verbatim>\<open>sc.GetTradePosition(PositionData)\<close> report
  what the host knows at the time of the call.
\<close>

definition GetBarHasClosedStatus :: "SCStudyInterface \<Rightarrow> bar_closed_status" where
  "GetBarHasClosedStatus sc = BarHasClosedStatus sc"

definition GetTradePosition :: "SCStudyInterface \<Rightarrow> s_SCPositionData" where
  "GetTradePosition sc = TradePosition sc"

text \<open>
  The computing member functions of the host. A moving average takes the input array, the
  output array, the current index (\<^verbatim>\<open>sc.Index\<close>, which automatic looping supplies) and
  the length, and returns the output array; \<^verbatim>\<open>sc.CrossOver\<close> takes the two arrays and
  the current index. They are parameters of the study functions: what is proved of a study
  function holds for every host.
\<close>

type_synonym moving_average = "real list \<Rightarrow> real list \<Rightarrow> nat \<Rightarrow> int \<Rightarrow> real list"

record host =
  SimpleMovAvg :: moving_average
  ExponentialMovAvg :: moving_average
  ZeroLagEMA :: moving_average
  HullMovingAverage :: moving_average
  CrossOver :: "real list \<Rightarrow> real list \<Rightarrow> nat \<Rightarrow> cross"

section \<open>The study functions\<close>

subsection \<open>SMA\<close>

definition SMA_SetDefaults :: "SCStudyInterface \<Rightarrow> SCStudyInterface" where
  "SMA_SetDefaults sc =
    (let sc = sc\<lparr>GraphName := ''SMA Crossover Strategy''\<rparr>;
         sc = sc\<lparr>AutoLoop := 1\<rparr>;
         sc = sc\<lparr>GraphRegion := 0\<rparr>;
         sc = sc\<lparr>Input := (Input sc)(0 := SetInt 9 ((Input sc 0)\<lparr>Name := ''Faster SMA Period''\<rparr>))\<rparr>;
         sc = sc\<lparr>Input := (Input sc)(1 := SetInt 9 ((Input sc 1)\<lparr>Name := ''Slower SMA Period''\<rparr>))\<rparr>;
         sc = sc\<lparr>Input := (Input sc)(5 := SetInt 80 ((Input sc 5)\<lparr>Name := ''Stop Value in terms of Ticks''\<rparr>))\<rparr>;
         sc = sc\<lparr>Input := (Input sc)(4 := SetInt 80 ((Input sc 4)\<lparr>Name := ''Target Value in terms of Ticks''\<rparr>))\<rparr>;
         sc = sc\<lparr>Subgraph := (Subgraph sc)(0 := (Subgraph sc 0)
                \<lparr>SubgraphName := ''Faster SMA'', DrawStyle := DRAWSTYLE_LINE, PrimaryColor := RGB 128 255 128\<rparr>)\<rparr>;
         sc = sc\<lparr>Subgraph := (Subgraph sc)(1 := (Subgraph sc 1)
                \<lparr>SubgraphName := ''Slower SMA'', DrawStyle := DRAWSTYLE_LINE, PrimaryColor := RGB 255 0 0\<rparr>)\<rparr>;
         sc = sc\<lparr>Input := (Input sc)(2 := SetInputDataIndex SC_LAST ((Input sc 2)\<lparr>Name := ''Faster SMA Input Data''\<rparr>))\<rparr>;
         sc = sc\<lparr>Input := (Input sc)(3 := SetInputDataIndex SC_LAST ((Input sc 3)\<lparr>Name := ''Slower SMA Input Data''\<rparr>))\<rparr>;
         sc = sc\<lparr>AllowMultipleEntriesInSameDirection := False\<rparr>;
         sc = sc\<lparr>MaximumPositionAllowed := 1\<rparr>;
         sc = sc\<lparr>SupportReversals := False\<rparr>;
         sc = sc\<lparr>SendOrdersToTradeService := False\<rparr>;
         sc = sc\<lparr>AllowOppositeEntryWithOpposingPositionOrOrders := False\<rparr>;
         sc = sc\<lparr>SupportAttachedOrdersForTrading := False\<rparr>;
         sc = sc\<lparr>CancelAllOrdersOnEntriesAndReversals := True\<rparr>;
         sc = sc\<lparr>AllowEntryWithWorkingOrders := False\<rparr>;
         sc = sc\<lparr>CancelAllWorkingOrdersOnExit := True\<rparr>;
         sc = sc\<lparr>AllowOnlyOneTradePerBar := True\<rparr>;
         sc = sc\<lparr>MaintainTradeStatisticsAndTradesData := True\<rparr>
     in sc)"

definition scsf_SMA_Crossover_Trading ::
    "host \<Rightarrow> SCStudyInterface \<Rightarrow> SCStudyInterface \<times> request list" where
  "scsf_SMA_Crossover_Trading h sc =
    (let SMA_Fast_Period = Input sc 0;
         SMA_Slow_Period = Input sc 1;
         SMA_Fast_Data = Input sc 2;
         SMA_Slow_Data = Input sc 3;
         Target_Ticks = Input sc 4;
         Stop_Ticks = Input sc 5
     in
     if SetDefaults sc then (SMA_SetDefaults sc, [])
     else
       let sc = sc\<lparr>Subgraph := (Subgraph sc)(0 := (Subgraph sc 0)\<lparr>Data :=
                  SimpleMovAvg h (BaseDataIn sc (GetInputDataIndex SMA_Fast_Data))
                    (Data (Subgraph sc 0)) (Index sc) (GetInt SMA_Fast_Data)\<rparr>)\<rparr>;
           sc = sc\<lparr>Subgraph := (Subgraph sc)(1 := (Subgraph sc 1)\<lparr>Data :=
                  SimpleMovAvg h (BaseDataIn sc (GetInputDataIndex SMA_Slow_Data))
                    (Data (Subgraph sc 1)) (Index sc) (GetInt SMA_Slow_Period)\<rparr>)\<rparr>;
           NewOrder = \<lparr>OrderQuantity = 1,
                       OrderType = SCT_ORDERTYPE_MARKET,
                       TimeInForce = SCT_TIF_GOOD_TILL_CANCELED,
                       AttachedOrderTarget1Type = SCT_ORDERTYPE_LIMIT,
                       AttachedOrderStop1Type = SCT_ORDERTYPE_TRAILING_STOP,
                       Target1Offset = float_mul (float_of_int (GetInt Target_Ticks)) (TickSize sc),
                       Stop1Offset = float_mul (float_of_int (GetInt Stop_Ticks)) (TickSize sc)\<rparr>;
           PositionData = GetTradePosition sc;
           SMA_Fast = Data (Subgraph sc 0);
           SMA_Slow = Data (Subgraph sc 1)
       in (sc,
           if GetBarHasClosedStatus sc = BHCS_BAR_HAS_CLOSED then
             (if CrossOver h SMA_Fast SMA_Slow (Index sc) = CROSS_FROM_BOTTOM then
                (if PositionQuantity PositionData < 0 then [CancelAllOrders, FlattenPosition] else [])
                @ [BuyEntry NewOrder]
              else [])
             @
             (if CrossOver h SMA_Fast SMA_Slow (Index sc) = CROSS_FROM_TOP then
                (if PositionQuantity PositionData > 0 then [CancelAllOrders, FlattenPosition] else [])
                @ [SellEntry NewOrder]
              else [])
           else []))"

subsection \<open>EMA\<close>

definition EMA_SetDefaults :: "SCStudyInterface \<Rightarrow> SCStudyInterface" where
  "EMA_SetDefaults sc =
    (let sc = sc\<lparr>GraphName := ''EMA Crossover Strategy''\<rparr>;
         sc = sc\<lparr>AutoLoop := 1\<rparr>;
         sc = sc\<lparr>GraphRegion := 0\<rparr>;
         sc = sc\<lparr>Input := (Input sc)(0 := SetInt 9 ((Input sc 0)\<lparr>Name := ''Faster EMA Period''\<rparr>))\<rparr>;
         sc = sc\<lparr>Input := (Input sc)(1 := SetInt 9 ((Input sc 1)\<lparr>Name := ''Slower EMA Period''\<rparr>))\<rparr>;
         sc = sc\<lparr>Input := (Input sc)(5 := SetInt 80 ((Input sc 5)\<lparr>Name := ''Stop Value in terms of Ticks''\<rparr>))\<rparr>;
         sc = sc\<lparr>Input := (Input sc)(4 := SetInt 80 ((Input sc 4)\<lparr>Name := ''Target Value in terms of Ticks''\<rparr>))\<rparr>;
         sc = sc\<lparr>Subgraph := (Subgraph sc)(0 := (Subgraph sc 0)
                \<lparr>SubgraphName := ''Faster EMA'', DrawStyle := DRAWSTYLE_LINE, PrimaryColor := RGB 128 255 128\<rparr>)\<rparr>;
         sc = sc\<lparr>Subgraph := (Subgraph sc)(1 := (Subgraph sc 1)
                \<lparr>SubgraphName := ''Slower EMA'', DrawStyle := DRAWSTYLE_LINE, PrimaryColor := RGB 255 0 0\<rparr>)\<rparr>;
         sc = sc\<lparr>Input := (Input sc)(2 := SetInputDataIndex SC_LAST ((Input sc 2)\<lparr>Name := ''Faster EMA Input Data''\<rparr>))\<rparr>;
         sc = sc\<lparr>Input := (Input sc)(3 := SetInputDataIndex SC_LAST ((Input sc 3)\<lparr>Name := ''Slower EMA Input Data''\<rparr>))\<rparr>;
         sc = sc\<lparr>AllowMultipleEntriesInSameDirection := False\<rparr>;
         sc = sc\<lparr>MaximumPositionAllowed := 1\<rparr>;
         sc = sc\<lparr>SupportReversals := False\<rparr>;
         sc = sc\<lparr>SendOrdersToTradeService := False\<rparr>;
         sc = sc\<lparr>AllowOppositeEntryWithOpposingPositionOrOrders := False\<rparr>;
         sc = sc\<lparr>SupportAttachedOrdersForTrading := False\<rparr>;
         sc = sc\<lparr>CancelAllOrdersOnEntriesAndReversals := True\<rparr>;
         sc = sc\<lparr>AllowEntryWithWorkingOrders := False\<rparr>;
         sc = sc\<lparr>CancelAllWorkingOrdersOnExit := True\<rparr>;
         sc = sc\<lparr>AllowOnlyOneTradePerBar := True\<rparr>;
         sc = sc\<lparr>MaintainTradeStatisticsAndTradesData := True\<rparr>
     in sc)"

definition scsf_EMA_Crossover_Trading ::
    "host \<Rightarrow> SCStudyInterface \<Rightarrow> SCStudyInterface \<times> request list" where
  "scsf_EMA_Crossover_Trading h sc =
    (let EMA_Fast_Period = Input sc 0;
         EMA_Slow_Period = Input sc 1;
         EMA_Fast_Data = Input sc 2;
         EMA_Slow_Data = Input sc 3;
         Target_Ticks = Input sc 4;
         Stop_Ticks = Input sc 5
     in
     if SetDefaults sc then (EMA_SetDefaults sc, [])
     else
       let sc = sc\<lparr>Subgraph := (Subgraph sc)(0 := (Subgraph sc 0)\<lparr>Data :=
                  ExponentialMovAvg h (BaseDataIn sc (GetInputDataIndex EMA_Fast_Data))
                    (Data (Subgraph sc 0)) (Index sc) (GetInt EMA_Fast_Data)\<rparr>)\<rparr>;
           sc = sc\<lparr>Subgraph := (Subgraph sc)(1 := (Subgraph sc 1)\<lparr>Data :=
                  ExponentialMovAvg h (BaseDataIn sc (GetInputDataIndex EMA_Slow_Data))
                    (Data (Subgraph sc 1)) (Index sc) (GetInt EMA_Slow_Period)\<rparr>)\<rparr>;
           NewOrder = \<lparr>OrderQuantity = 1,
                       OrderType = SCT_ORDERTYPE_MARKET,
                       TimeInForce = SCT_TIF_GOOD_TILL_CANCELED,
                       AttachedOrderTarget1Type = SCT_ORDERTYPE_LIMIT,
                       AttachedOrderStop1Type = SCT_ORDERTYPE_TRAILING_STOP,
                       Target1Offset = float_mul (float_of_int (GetInt Target_Ticks)) (TickSize sc),
                       Stop1Offset = float_mul (float_of_int (GetInt Stop_Ticks)) (TickSize sc)\<rparr>;
           PositionData = GetTradePosition sc;
           EMA_Fast = Data (Subgraph sc 0);
           EMA_Slow = Data (Subgraph sc 1)
       in (sc,
           if GetBarHasClosedStatus sc = BHCS_BAR_HAS_CLOSED then
             (if CrossOver h EMA_Fast EMA_Slow (Index sc) = CROSS_FROM_BOTTOM then
                (if PositionQuantity PositionData < 0 then [CancelAllOrders, FlattenPosition] else [])
                @ [BuyEntry NewOrder]
              else [])
             @
             (if CrossOver h EMA_Fast EMA_Slow (Index sc) = CROSS_FROM_TOP then
                (if PositionQuantity PositionData > 0 then [CancelAllOrders, FlattenPosition] else [])
                @ [SellEntry NewOrder]
              else [])
           else []))"

subsection \<open>ZLEMA\<close>

definition ZLEMA_SetDefaults :: "SCStudyInterface \<Rightarrow> SCStudyInterface" where
  "ZLEMA_SetDefaults sc =
    (let sc = sc\<lparr>GraphName := ''ZLEMA Crossover Strategy''\<rparr>;
         sc = sc\<lparr>AutoLoop := 1\<rparr>;
         sc = sc\<lparr>GraphRegion := 0\<rparr>;
         sc = sc\<lparr>Input := (Input sc)(0 := SetInt 9 ((Input sc 0)\<lparr>Name := ''Faster ZLEMA Period''\<rparr>))\<rparr>;
         sc = sc\<lparr>Input := (Input sc)(1 := SetInt 9 ((Input sc 1)\<lparr>Name := ''Slower ZLEMA Period''\<rparr>))\<rparr>;
         sc = sc\<lparr>Input := (Input sc)(5 := SetInt 80 ((Input sc 5)\<lparr>Name := ''Stop Value in terms of Ticks''\<rparr>))\<rparr>;
         sc = sc\<lparr>Input := (Input sc)(4 := SetInt 80 ((Input sc 4)\<lparr>Name := ''Target Value in terms of Ticks''\<rparr>))\<rparr>;
         sc = sc\<lparr>Subgraph := (Subgraph sc)(0 := (Subgraph sc 0)
                \<lparr>SubgraphName := ''Faster ZLEMA'', DrawStyle := DRAWSTYLE_LINE, PrimaryColor := RGB 128 255 128\<rparr>)\<rparr>;
         sc = sc\<lparr>Subgraph := (Subgraph sc)(1 := (Subgraph sc 1)
                \<lparr>SubgraphName := ''Slower ZLEMA'', DrawStyle := DRAWSTYLE_LINE, PrimaryColor := RGB 255 0 0\<rparr>)\<rparr>;
         sc = sc\<lparr>Input := (Input sc)(2 := SetInputDataIndex SC_LAST ((Input sc 2)\<lparr>Name := ''Faster ZLEMA Input Data''\<rparr>))\<rparr>;
         sc = sc\<lparr>Input := (Input sc)(3 := SetInputDataIndex SC_LAST ((Input sc 3)\<lparr>Name := ''Slower ZLEMA Input Data''\<rparr>))\<rparr>;
         sc = sc\<lparr>AllowMultipleEntriesInSameDirection := False\<rparr>;
         sc = sc\<lparr>MaximumPositionAllowed := 1\<rparr>;
         sc = sc\<lparr>SupportReversals := False\<rparr>;
         sc = sc\<lparr>SendOrdersToTradeService := False\<rparr>;
         sc = sc\<lparr>AllowOppositeEntryWithOpposingPositionOrOrders := False\<rparr>;
         sc = sc\<lparr>SupportAttachedOrdersForTrading := False\<rparr>;
         sc = sc\<lparr>CancelAllOrdersOnEntriesAndReversals := True\<rparr>;
         sc = sc\<lparr>AllowEntryWithWorkingOrders := False\<rparr>;
         sc = sc\<lparr>CancelAllWorkingOrdersOnExit := True\<rparr>;
         sc = sc\<lparr>AllowOnlyOneTradePerBar := True\<rparr>;
         sc = sc\<lparr>MaintainTradeStatisticsAndTradesData := True\<rparr>
     in sc)"

definition scsf_ZLEMA_Crossover_Trading ::
    "host \<Rightarrow> SCStudyInterface \<Rightarrow> SCStudyInterface \<times> request list" where
  "scsf_ZLEMA_Crossover_Trading h sc =
    (let ZLEMA_Fast_Period = Input sc 0;
         ZLEMA_Slow_Period = Input sc 1;
         ZLEMA_Fast_Data = Input sc 2;
         ZLEMA_Slow_Data = Input sc 3;
         Target_Ticks = Input sc 4;
         Stop_Ticks = Input sc 5
     in
     if SetDefaults sc then (ZLEMA_SetDefaults sc, [])
     else
       let sc = sc\<lparr>Subgraph := (Subgraph sc)(0 := (Subgraph sc 0)\<lparr>Data :=
                  ZeroLagEMA h (BaseDataIn sc (GetInputDataIndex ZLEMA_Fast_Data))
                    (Data (Subgraph sc 0)) (Index sc) (GetInt ZLEMA_Fast_Data)\<rparr>)\<rparr>;
           sc = sc\<lparr>Subgraph := (Subgraph sc)(1 := (Subgraph sc 1)\<lparr>Data :=
                  ZeroLagEMA h (BaseDataIn sc (GetInputDataIndex ZLEMA_Slow_Data))
                    (Data (Subgraph sc 1)) (Index sc) (GetInt ZLEMA_Slow_Period)\<rparr>)\<rparr>;
           NewOrder = \<lparr>OrderQuantity = 1,
                       OrderType = SCT_ORDERTYPE_MARKET,
                       TimeInForce = SCT_TIF_GOOD_TILL_CANCELED,
                       AttachedOrderTarget1Type = SCT_ORDERTYPE_LIMIT,
                       AttachedOrderStop1Type = SCT_ORDERTYPE_TRAILING_STOP,
                       Target1Offset = float_mul (float_of_int (GetInt Target_Ticks)) (TickSize sc),
                       Stop1Offset = float_mul (float_of_int (GetInt Stop_Ticks)) (TickSize sc)\<rparr>;
           PositionData = GetTradePosition sc;
           ZLEMA_Fast = Data (Subgraph sc 0);
           ZLEMA_Slow = Data (Subgraph sc 1)
       in (sc,
           if GetBarHasClosedStatus sc = BHCS_BAR_HAS_CLOSED then
             (if CrossOver h ZLEMA_Fast ZLEMA_Slow (Index sc) = CROSS_FROM_BOTTOM then
                (if PositionQuantity PositionData < 0 then [CancelAllOrders, FlattenPosition] else [])
                @ [BuyEntry NewOrder]
              else [])
             @
             (if CrossOver h ZLEMA_Fast ZLEMA_Slow (Index sc) = CROSS_FROM_TOP then
                (if PositionQuantity PositionData > 0 then [CancelAllOrders, FlattenPosition] else [])
                @ [SellEntry NewOrder]
              else [])
           else []))"

subsection \<open>Hull\<close>

definition Hull_SetDefaults :: "SCStudyInterface \<Rightarrow> SCStudyInterface" where
  "Hull_SetDefaults sc =
    (let sc = sc\<lparr>GraphName := ''Hull Crossover Strategy''\<rparr>;
         sc = sc\<lparr>AutoLoop := 1\<rparr>;
         sc = sc\<lparr>GraphRegion := 0\<rparr>;
         sc = sc\<lparr>Input := (Input sc)(0 := SetInt 9 ((Input sc 0)\<lparr>Name := ''Faster Hull Period''\<rparr>))\<rparr>;
         sc = sc\<lparr>Input := (Input sc)(1 := SetInt 9 ((Input sc 1)\<lparr>Name := ''Slower Hull Period''\<rparr>))\<rparr>;
         sc = sc\<lparr>Input := (Input sc)(5 := SetInt 80 ((Input sc 5)\<lparr>Name := ''Stop Value in terms of Ticks''\<rparr>))\<rparr>;
         sc = sc\<lparr>Input := (Input sc)(4 := SetInt 80 ((Input sc 4)\<lparr>Name := ''Target Value in terms of Ticks''\<rparr>))\<rparr>;
         sc = sc\<lparr>Subgraph := (Subgraph sc)(0 := (Subgraph sc 0)
                \<lparr>SubgraphName := ''Faster Hull'', DrawStyle := DRAWSTYLE_LINE, PrimaryColor := RGB 128 255 128\<rparr>)\<rparr>;
         sc = sc\<lparr>Subgraph := (Subgraph sc)(1 := (Subgraph sc 1)
                \<lparr>SubgraphName := ''Slower Hull'', DrawStyle := DRAWSTYLE_LINE, PrimaryColor := RGB 255 0 0\<rparr>)\<rparr>;
         sc = sc\<lparr>Input := (Input sc)(2 := SetInputDataIndex SC_LAST ((Input sc 2)\<lparr>Name := ''Faster Hull Input Data''\<rparr>))\<rparr>;
         sc = sc\<lparr>Input := (Input sc)(3 := SetInputDataIndex SC_LAST ((Input sc 3)\<lparr>Name := ''Slower Hull Input Data''\<rparr>))\<rparr>;
         sc = sc\<lparr>AllowMultipleEntriesInSameDirection := False\<rparr>;
         sc = sc\<lparr>MaximumPositionAllowed := 1\<rparr>;
         sc = sc\<lparr>SupportReversals := False\<rparr>;
         sc = sc\<lparr>SendOrdersToTradeService := False\<rparr>;
         sc = sc\<lparr>AllowOppositeEntryWithOpposingPositionOrOrders := False\<rparr>;
         sc = sc\<lparr>SupportAttachedOrdersForTrading := False\<rparr>;
         sc = sc\<lparr>CancelAllOrdersOnEntriesAndReversals := True\<rparr>;
         sc = sc\<lparr>AllowEntryWithWorkingOrders := False\<rparr>;
         sc = sc\<lparr>CancelAllWorkingOrdersOnExit := True\<rparr>;
         sc = sc\<lparr>AllowOnlyOneTradePerBar := True\<rparr>;
         sc = sc\<lparr>MaintainTradeStatisticsAndTradesData := True\<rparr>
     in sc)"

definition scsf_Hull_Crossover_Trading ::
    "host \<Rightarrow> SCStudyInterface \<Rightarrow> SCStudyInterface \<times> request list" where
  "scsf_Hull_Crossover_Trading h sc =
    (let Hull_Fast_Period = Input sc 0;
         Hull_Slow_Period = Input sc 1;
         Hull_Fast_Data = Input sc 2;
         Hull_Slow_Data = Input sc 3;
         Target_Ticks = Input sc 4;
         Stop_Ticks = Input sc 5
     in
     if SetDefaults sc then (Hull_SetDefaults sc, [])
     else
       let sc = sc\<lparr>Subgraph := (Subgraph sc)(0 := (Subgraph sc 0)\<lparr>Data :=
                  HullMovingAverage h (BaseDataIn sc (GetInputDataIndex Hull_Fast_Data))
                    (Data (Subgraph sc 0)) (Index sc) (GetInt Hull_Fast_Data)\<rparr>)\<rparr>;
           sc = sc\<lparr>Subgraph := (Subgraph sc)(1 := (Subgraph sc 1)\<lparr>Data :=
                  HullMovingAverage h (BaseDataIn sc (GetInputDataIndex Hull_Slow_Data))
                    (Data (Subgraph sc 1)) (Index sc) (GetInt Hull_Slow_Period)\<rparr>)\<rparr>;
           NewOrder = \<lparr>OrderQuantity = 1,
                       OrderType = SCT_ORDERTYPE_MARKET,
                       TimeInForce = SCT_TIF_GOOD_TILL_CANCELED,
                       AttachedOrderTarget1Type = SCT_ORDERTYPE_LIMIT,
                       AttachedOrderStop1Type = SCT_ORDERTYPE_TRAILING_STOP,
                       Target1Offset = float_mul (float_of_int (GetInt Target_Ticks)) (TickSize sc),
                       Stop1Offset = float_mul (float_of_int (GetInt Stop_Ticks)) (TickSize sc)\<rparr>;
           PositionData = GetTradePosition sc;
           Hull_Fast = Data (Subgraph sc 0);
           Hull_Slow = Data (Subgraph sc 1)
       in (sc,
           if GetBarHasClosedStatus sc = BHCS_BAR_HAS_CLOSED then
             (if CrossOver h Hull_Fast Hull_Slow (Index sc) = CROSS_FROM_BOTTOM then
                (if PositionQuantity PositionData < 0 then [CancelAllOrders, FlattenPosition] else [])
                @ [BuyEntry NewOrder]
              else [])
             @
             (if CrossOver h Hull_Fast Hull_Slow (Index sc) = CROSS_FROM_TOP then
                (if PositionQuantity PositionData > 0 then [CancelAllOrders, FlattenPosition] else [])
                @ [SellEntry NewOrder]
              else [])
           else []))"

subsection \<open>The four variants as one family\<close>

datatype variant = SMA | EMA | ZLEMA | Hull

fun study :: "variant \<Rightarrow> host \<Rightarrow> SCStudyInterface \<Rightarrow> SCStudyInterface \<times> request list" where
  "study SMA = scsf_SMA_Crossover_Trading"
| "study EMA = scsf_EMA_Crossover_Trading"
| "study ZLEMA = scsf_ZLEMA_Crossover_Trading"
| "study Hull = scsf_Hull_Crossover_Trading"

text \<open>The moving average of the host that a variant calls.\<close>

fun smoothing :: "variant \<Rightarrow> host \<Rightarrow> moving_average" where
  "smoothing SMA h = SimpleMovAvg h"
| "smoothing EMA h = ExponentialMovAvg h"
| "smoothing ZLEMA h = ZeroLagEMA h"
| "smoothing Hull h = HullMovingAverage h"

text \<open>What an evaluation leaves and emits: the two subgraph arrays and the requests.\<close>

definition fast_series :: "variant \<Rightarrow> host \<Rightarrow> SCStudyInterface \<Rightarrow> real list" where
  "fast_series v h sc = Data (Subgraph (fst (study v h sc)) 0)"

definition slow_series :: "variant \<Rightarrow> host \<Rightarrow> SCStudyInterface \<Rightarrow> real list" where
  "slow_series v h sc = Data (Subgraph (fst (study v h sc)) 1)"

definition requests :: "variant \<Rightarrow> host \<Rightarrow> SCStudyInterface \<Rightarrow> request list" where
  "requests v h sc = snd (study v h sc)"

text \<open>
  The value both calls of \<^verbatim>\<open>sc.CrossOver\<close> return in an evaluation: the subgraph arrays
  do not change between the calls.
\<close>

definition classification :: "variant \<Rightarrow> host \<Rightarrow> SCStudyInterface \<Rightarrow> cross" where
  "classification v h sc = CrossOver h (fast_series v h sc) (slow_series v h sc) (Index sc)"

text \<open>The order object the study functions fill in at lines 105 to 112.\<close>

definition NewOrder_of :: "SCStudyInterface \<Rightarrow> s_SCNewOrder" where
  "NewOrder_of sc =
     \<lparr>OrderQuantity = 1,
      OrderType = SCT_ORDERTYPE_MARKET,
      TimeInForce = SCT_TIF_GOOD_TILL_CANCELED,
      AttachedOrderTarget1Type = SCT_ORDERTYPE_LIMIT,
      AttachedOrderStop1Type = SCT_ORDERTYPE_TRAILING_STOP,
      Target1Offset = float_mul (float_of_int (GetInt (Input sc 4))) (TickSize sc),
      Stop1Offset = float_mul (float_of_int (GetInt (Input sc 5))) (TickSize sc)\<rparr>"

fun is_entry :: "request \<Rightarrow> bool" where
  "is_entry (BuyEntry _) = True"
| "is_entry (SellEntry _) = True"
| "is_entry _ = False"

fun order_of :: "request \<Rightarrow> s_SCNewOrder option" where
  "order_of (BuyEntry ord) = Some ord"
| "order_of (SellEntry ord) = Some ord"
| "order_of _ = None"

section \<open>The decision table of the specification\<close>

text \<open>
  The transition table of the specification's decision engine, written from its words: the
  state is the sign of the position quantity, and the table is consulted only when the bar
  has closed. The study functions are compared with it below.
\<close>

datatype position_state = Flat | Long | Short

definition position_state_of :: "int \<Rightarrow> position_state" where
  "position_state_of q = (if q > 0 then Long else if q < 0 then Short else Flat)"

fun decision_table :: "position_state \<Rightarrow> cross \<Rightarrow> s_SCNewOrder \<Rightarrow> request list" where
  "decision_table Short CROSS_FROM_BOTTOM ord = [CancelAllOrders, FlattenPosition, BuyEntry ord]"
| "decision_table Flat CROSS_FROM_BOTTOM ord = [BuyEntry ord]"
| "decision_table Long CROSS_FROM_BOTTOM ord = [BuyEntry ord]"
| "decision_table Long CROSS_FROM_TOP ord = [CancelAllOrders, FlattenPosition, SellEntry ord]"
| "decision_table Flat CROSS_FROM_TOP ord = [SellEntry ord]"
| "decision_table Short CROSS_FROM_TOP ord = [SellEntry ord]"
| "decision_table _ NO_CROSS ord = []"

definition decision_engine ::
    "bar_closed_status \<Rightarrow> int \<Rightarrow> cross \<Rightarrow> s_SCNewOrder \<Rightarrow> request list" where
  "decision_engine status q c ord =
     (if status = BHCS_BAR_HAS_CLOSED then decision_table (position_state_of q) c ord else [])"

section \<open>The host's computing functions, from the specification\<close>

text \<open>An array read that is safe out of range, as the host's arrays are.\<close>

definition sample :: "real list \<Rightarrow> nat \<Rightarrow> real" where
  "sample xs i = (if i < length xs then xs ! i else 0)"

text \<open>
  Modelled from the spec: the crossover detector's \<^verbatim>\<open>classify\<close> (section 4.2), which the
  study functions reach as \<^verbatim>\<open>sc.CrossOver\<close>, a function of the host's library that the
  repository calls and does not contain.
\<close>

definition classify :: "real \<Rightarrow> real \<Rightarrow> real \<Rightarrow> real \<Rightarrow> cross" where
  "classify fastPrev slowPrev fastCur slowCur =
     (if fastPrev \<le> slowPrev \<and> fastCur > slowCur then CROSS_FROM_BOTTOM
      else if fastPrev \<ge> slowPrev \<and> fastCur < slowCur then CROSS_FROM_TOP
      else NO_CROSS)"

text \<open>
  Modelled from the spec: \<^verbatim>\<open>sc.CrossOver\<close> at the current index, missing from the
  repository: the classification of the values at the indices \<open>i - 1\<close> and \<open>i\<close>, and no
  signal on the first bar (sections 3 and 7).
\<close>

definition CrossOver_spec :: "real list \<Rightarrow> real list \<Rightarrow> nat \<Rightarrow> cross" where
  "CrossOver_spec fast slow i =
     (if i < 1 then NO_CROSS
      else classify (sample fast (i - 1)) (sample slow (i - 1)) (sample fast i) (sample slow i))"

text \<open>
  Modelled from the spec: \<^verbatim>\<open>sc.SimpleMovAvg\<close>, missing from the repository: the
  arithmetic mean of the last \<open>period\<close> samples, or of the samples that exist when there
  are fewer (section 4.1). A period below 1 leaves an empty window, whose mean is 0 here.
\<close>

definition window :: "real list \<Rightarrow> nat \<Rightarrow> nat \<Rightarrow> real list" where
  "window xs i n = (let k = min n (Suc i) in take k (drop (Suc i - k) xs))"

definition mean :: "real list \<Rightarrow> real" where
  "mean xs = sum_list xs / real (length xs)"

definition SimpleMovAvg_spec :: moving_average where
  "SimpleMovAvg_spec In Out i Length = Out[i := mean (window In i (nat Length))]"

text \<open>
  Modelled from the spec: \<^verbatim>\<open>sc.ExponentialMovAvg\<close>, missing from the repository:
  \<open>value[i] = \<alpha> * sample[i] + (1 - \<alpha>) * value[i-1]\<close> with \<open>\<alpha> = 2 / (period + 1)\<close>,
  seeded with \<open>value[0] = sample[0]\<close> (section 4.1), as a function of the samples.
\<close>

definition alpha :: "int \<Rightarrow> real" where
  "alpha period = 2 / (real_of_int period + 1)"

fun ema :: "real \<Rightarrow> (nat \<Rightarrow> real) \<Rightarrow> nat \<Rightarrow> real" where
  "ema a x 0 = x 0"
| "ema a x (Suc i) = a * x (Suc i) + (1 - a) * ema a x i"

definition ExponentialMovAvg_spec :: moving_average where
  "ExponentialMovAvg_spec In Out i Length = Out[i := ema (alpha Length) (sample In) i]"

text \<open>
  Modelled from the spec: \<^verbatim>\<open>sc.ZeroLagEMA\<close>, missing from the repository: exponential
  smoothing of the input \<open>sample[i] + (sample[i] - sample[i - lag])\<close> with
  \<open>lag = (period - 1) / 2\<close> in integer division, and of \<open>sample[i]\<close> itself where
  \<open>i < lag\<close> (section 4.1).
\<close>

definition zero_lag_input :: "real list \<Rightarrow> int \<Rightarrow> nat \<Rightarrow> real" where
  "zero_lag_input In period i =
     (let lag = nat ((period - 1) div 2)
      in if i < lag then sample In i else sample In i + (sample In i - sample In (i - lag)))"

definition ZeroLagEMA_spec :: moving_average where
  "ZeroLagEMA_spec In Out i Length = Out[i := ema (alpha Length) (zero_lag_input In Length) i]"

text \<open>
  Modelled from the spec: \<^verbatim>\<open>sc.HullMovingAverage\<close>, missing from the repository:
  \<open>WMA (2 * WMA (sample, period / 2) - WMA (sample, period), sqrt period)\<close>, where WMA
  weighs the most recent of its samples highest, with weights 1 to its period, and every
  period is rounded to the nearest integer and is at least 1 (section 4.1). Where fewer
  samples exist than the period, WMA is taken over those that exist (section 7).
\<close>

definition wma :: "(nat \<Rightarrow> real) \<Rightarrow> nat \<Rightarrow> nat \<Rightarrow> real" where
  "wma x i n =
     (let k = min n (Suc i)
      in sum_list (map (\<lambda>j. real (k - j) * x (i - j)) [0..<k])
         / sum_list (map (\<lambda>j. real (k - j)) [0..<k]))"

definition round_half :: "nat \<Rightarrow> nat" where
  "round_half n = max 1 ((n + 1) div 2)"

definition round_sqrt :: "nat \<Rightarrow> nat" where
  "round_sqrt n = max 1 (length (takeWhile (\<lambda>k. k * k + k < n) [0..<n]))"

definition hma :: "real list \<Rightarrow> nat \<Rightarrow> nat \<Rightarrow> real" where
  "hma In period i =
     (let p = max 1 period
      in wma (\<lambda>j. 2 * wma (sample In) j (round_half p) - wma (sample In) j p) i (round_sqrt p))"

definition HullMovingAverage_spec :: moving_average where
  "HullMovingAverage_spec In Out i Length = Out[i := hma In (nat Length) i]"

definition spec_host :: host where
  "spec_host =
     \<lparr>SimpleMovAvg = SimpleMovAvg_spec,
      ExponentialMovAvg = ExponentialMovAvg_spec,
      ZeroLagEMA = ZeroLagEMA_spec,
      HullMovingAverage = HullMovingAverage_spec,
      CrossOver = CrossOver_spec\<rparr>"

section \<open>Concrete evaluations\<close>

text \<open>
  A study interface as the host hands it over after the defaults were set: every input
  and subgraph unnamed and empty before, five bars on the chart, the evaluation at the
  last of them. The subgraph arrays hold what the evaluations of the first four bars left.
\<close>

definition blank :: SCStudyInterface where
  "blank =
     \<lparr>SetDefaults = True, GraphName = [], AutoLoop = 0, GraphRegion = 0,
      Input = (\<lambda>_. \<lparr>Name = [], InputValue = NO_VALUE\<rparr>),
      Subgraph = (\<lambda>_. \<lparr>SubgraphName = [], DrawStyle = DRAWSTYLE_IGNORE,
                        PrimaryColor = RGB 0 0 0, Data = []\<rparr>),
      BaseDataIn = (\<lambda>_. []), Index = 0, TickSize = Finite 0,
      BarHasClosedStatus = BHCS_SET_DEFAULTS,
      TradePosition = \<lparr>PositionQuantity = 0\<rparr>,
      AllowMultipleEntriesInSameDirection = False, MaximumPositionAllowed = 0,
      SupportReversals = False, SendOrdersToTradeService = False,
      AllowOppositeEntryWithOpposingPositionOrOrders = False,
      SupportAttachedOrdersForTrading = False,
      CancelAllOrdersOnEntriesAndReversals = False, AllowEntryWithWorkingOrders = False,
      CancelAllWorkingOrdersOnExit = False, AllowOnlyOneTradePerBar = False,
      MaintainTradeStatisticsAndTradesData = False\<rparr>"

definition on_bar ::
    "real list \<Rightarrow> real list \<Rightarrow> real list \<Rightarrow> bar_closed_status \<Rightarrow> int \<Rightarrow>
     SCStudyInterface \<Rightarrow> SCStudyInterface" where
  "on_bar prices fast slow status q sc =
     sc\<lparr>SetDefaults := False,
        BaseDataIn := (BaseDataIn sc)(SC_LAST := prices),
        Subgraph := (Subgraph sc)(0 := (Subgraph sc 0)\<lparr>Data := fast\<rparr>,
                                  1 := (Subgraph sc 1)\<lparr>Data := slow\<rparr>),
        Index := length prices - 1,
        TickSize := Finite (1 / 4),
        BarHasClosedStatus := status,
        TradePosition := \<lparr>PositionQuantity = q\<rparr>\<rparr>"

text \<open>
  Prices that rise at the fifth bar, prices that fall there, and prices that stay. The
  subgraph arrays hold the averages of the first four bars: of the last three prices in
  the first array, of all prices in the second.
\<close>

definition rising :: "bar_closed_status \<Rightarrow> int \<Rightarrow> SCStudyInterface" where
  "rising status q =
     on_bar [6, 4, 4, 4, 8] [6, 5, 14 / 3, 4, 0] [6, 5, 14 / 3, 9 / 2, 0] status q
       (fst (scsf_SMA_Crossover_Trading spec_host blank))"

definition falling :: "bar_closed_status \<Rightarrow> int \<Rightarrow> SCStudyInterface" where
  "falling status q =
     on_bar [3, 5, 5, 5, 1] [3, 4, 13 / 3, 5, 0] [3, 4, 13 / 3, 9 / 2, 0] status q
       (fst (scsf_SMA_Crossover_Trading spec_host blank))"

definition steady :: "bar_closed_status \<Rightarrow> int \<Rightarrow> SCStudyInterface" where
  "steady status q =
     on_bar [4, 4, 4, 4, 4] [4, 4, 4, 4, 0] [4, 4, 4, 4, 0] status q
       (fst (scsf_SMA_Crossover_Trading spec_host blank))"

text \<open>
  Two bars whose low and last prices are given, the fast series taken from the lows and
  the slow series, of period 1, from the last prices; the position is short.
\<close>

definition low_last :: SCStudyInterface where
  "low_last =
     (let sc = fst (scsf_EMA_Crossover_Trading spec_host blank);
          sc = sc\<lparr>Input := (Input sc)(1 := SetInt 1 (Input sc 1),
                                        2 := SetInputDataIndex SC_LOW (Input sc 2))\<rparr>;
          sc = on_bar [11, 5] [10, 0] [11, 0] BHCS_BAR_HAS_CLOSED (- 1) sc
      in sc\<lparr>BaseDataIn := (BaseDataIn sc)(SC_LOW := [10, 4])\<rparr>)"

definition example_order :: s_SCNewOrder where
  "example_order =
     \<lparr>OrderQuantity = 1,
      OrderType = SCT_ORDERTYPE_MARKET,
      TimeInForce = SCT_TIF_GOOD_TILL_CANCELED,
      AttachedOrderTarget1Type = SCT_ORDERTYPE_LIMIT,
      AttachedOrderStop1Type = SCT_ORDERTYPE_TRAILING_STOP,
      Target1Offset = Finite 20,
      Stop1Offset = Finite 20\<rparr>"

text \<open>
  The rising evaluation on an instrument whose tick size is the \<^verbatim>\<open>float\<close> nearest to
  one cent, \<open>5368709 / 2 ^ 29\<close>, and the order submitted there.
\<close>

definition cents :: SCStudyInterface where
  "cents = (rising BHCS_BAR_HAS_CLOSED 0)\<lparr>TickSize := Finite (5368709 / 536870912)\<rparr>"

definition cents_order :: s_SCNewOrder where
  "cents_order =
     \<lparr>OrderQuantity = 1,
      OrderType = SCT_ORDERTYPE_MARKET,
      TimeInForce = SCT_TIF_GOOD_TILL_CANCELED,
      AttachedOrderTarget1Type = SCT_ORDERTYPE_LIMIT,
      AttachedOrderStop1Type = SCT_ORDERTYPE_TRAILING_STOP,
      Target1Offset = Finite (3355443 / 4194304),
      Stop1Offset = Finite (3355443 / 4194304)\<rparr>"

text \<open>
  The rising evaluation with a short position on a study interface that differs in
  members no study function reads after the defaults were set.
\<close>

definition relabelled :: SCStudyInterface where
  "relabelled =
     (rising BHCS_BAR_HAS_CLOSED (- 1))
       \<lparr>GraphName := ''Another study'', MaximumPositionAllowed := 5,
        AllowOnlyOneTradePerBar := False,
        Subgraph := (Subgraph (rising BHCS_BAR_HAS_CLOSED (- 1)))
                      (0 := (Subgraph (rising BHCS_BAR_HAS_CLOSED (- 1)) 0)\<lparr>DrawStyle := DRAWSTYLE_IGNORE\<rparr>)\<rparr>"

section \<open>What an evaluation computes\<close>

lemmas study_defs = scsf_SMA_Crossover_Trading_def scsf_EMA_Crossover_Trading_def
  scsf_ZLEMA_Crossover_Trading_def scsf_Hull_Crossover_Trading_def

lemmas defaults_defs = SMA_SetDefaults_def EMA_SetDefaults_def ZLEMA_SetDefaults_def
  Hull_SetDefaults_def

text \<open>
  Every variant emits what the decision table of the specification gives for the reported
  bar status, the reported position quantity and the value of \<^verbatim>\<open>sc.CrossOver\<close>, with
  the order object it has filled in; with \<^verbatim>\<open>sc.SetDefaults\<close> set it returns before.
\<close>

lemma requests_eq:
  "requests v h sc =
     (if SetDefaults sc then []
      else decision_engine (GetBarHasClosedStatus sc) (PositionQuantity (GetTradePosition sc))
             (classification v h sc) (NewOrder_of sc))"
  by (cases v; cases "classification v h sc")
     (auto simp add: requests_def classification_def fast_series_def slow_series_def
        study_defs Let_def decision_engine_def position_state_of_def NewOrder_of_def
        GetBarHasClosedStatus_def GetTradePosition_def)

lemma fast_series_eq:
  "\<not> SetDefaults sc \<Longrightarrow> fast_series v h sc =
     smoothing v h (BaseDataIn sc (GetInputDataIndex (Input sc 2))) (Data (Subgraph sc 0))
       (Index sc) (GetInt (Input sc 2))"
  by (cases v) (simp_all add: fast_series_def study_defs Let_def)

lemma slow_series_eq:
  "\<not> SetDefaults sc \<Longrightarrow> slow_series v h sc =
     smoothing v h (BaseDataIn sc (GetInputDataIndex (Input sc 3))) (Data (Subgraph sc 1))
       (Index sc) (GetInt (Input sc 1))"
  by (cases v) (simp_all add: slow_series_def study_defs Let_def)

lemma fast_series_defaults: "SetDefaults sc \<Longrightarrow> fast_series v h sc = Data (Subgraph sc 0)"
  by (cases v) (simp_all add: fast_series_def study_defs defaults_defs Let_def)

lemma slow_series_defaults: "SetDefaults sc \<Longrightarrow> slow_series v h sc = Data (Subgraph sc 1)"
  by (cases v) (simp_all add: slow_series_def study_defs defaults_defs Let_def)

text \<open>The fast series does not depend on input 0, the input named as the fast period.\<close>

lemma fast_series_ignores_fast_period:
  "fast_series v h (sc\<lparr>Input := (Input sc)(0 := x)\<rparr>) = fast_series v h sc"
proof (cases "SetDefaults sc")
  case True
  then show ?thesis by (simp add: fast_series_defaults)
next
  case False
  then show ?thesis by (simp add: fast_series_eq)
qed

lemma decision_engine_cases:
  "decision_engine status q c ord =
     (if status \<noteq> BHCS_BAR_HAS_CLOSED then []
      else if c = CROSS_FROM_BOTTOM then
        (if q < 0 then [CancelAllOrders, FlattenPosition, BuyEntry ord] else [BuyEntry ord])
      else if c = CROSS_FROM_TOP then
        (if q > 0 then [CancelAllOrders, FlattenPosition, SellEntry ord] else [SellEntry ord])
      else [])"
  by (cases c) (simp_all add: decision_engine_def position_state_of_def)

lemma entry_order:
  assumes "r \<in> set (requests v h sc)" and "order_of r = Some ord"
  shows "ord = NewOrder_of sc"
  using assms by (auto simp add: requests_eq decision_engine_cases split: if_splits)

subsection \<open>The concrete evaluations\<close>

text \<open>
  Single-precision products and conversions at the inputs used below: 80 ticks of a quarter
  are exact, 80 ticks of a cent are not, and neither is the conversion of \<open>2 ^ 24 + 1\<close>.
\<close>

lemma eighty_quarter_ticks: "float_mul (float_of_int 80) (Finite (1 / 4)) = Finite 20"
  by code_simp

lemma eighty_cent_ticks:
  "float_mul (float_of_int 80) (Finite (5368709 / 536870912)) = Finite (3355443 / 4194304)"
  by code_simp

lemma float_of_int_rounds: "float_of_int 16777217 = Finite 16777216"
  by code_simp

lemma float_mul_overflows: "float_mul (float_of_int 2147483647) (Finite (2 ^ 127)) = PlusInfinity"
  by code_simp

lemmas state_defs = rising_def falling_def steady_def low_last_def on_bar_def blank_def
  SetInt_def SetInputDataIndex_def SC_LAST_def SC_LOW_def GetInt_def GetInputDataIndex_def
  GetBarHasClosedStatus_def GetTradePosition_def

lemmas host_defs = spec_host_def SimpleMovAvg_spec_def ExponentialMovAvg_spec_def
  ZeroLagEMA_spec_def window_def mean_def CrossOver_spec_def classify_def sample_def
  alpha_def zero_lag_input_def

lemma rising_facts:
  "\<not> SetDefaults (rising st q)"
  "GetBarHasClosedStatus (rising st q) = st"
  "PositionQuantity (GetTradePosition (rising st q)) = q"
  "NewOrder_of (rising st q) = example_order"
  "GetInt (Input (rising st q) 0) = 9"
  "GetInt (Input (rising st q) 1) = 9"
  "GetInputDataIndex (Input (rising st q) 2) = SC_LAST"
  "GetInputDataIndex (Input (rising st q) 3) = SC_LAST"
  "BaseDataIn (rising st q) SC_LAST = [6, 4, 4, 4, 8]"
  "Index (rising st q) = 4"
  by (simp_all add: NewOrder_of_def example_order_def state_defs study_defs defaults_defs Let_def
        eighty_quarter_ticks)

lemma rising_fast: "fast_series SMA spec_host (rising st q) = [6, 5, 14 / 3, 4, 16 / 3]"
  by (simp add: fast_series_eq rising_facts)
     (simp add: state_defs study_defs defaults_defs host_defs Let_def)

lemma rising_slow: "slow_series SMA spec_host (rising st q) = [6, 5, 14 / 3, 9 / 2, 26 / 5]"
  by (simp add: slow_series_eq rising_facts)
     (simp add: state_defs study_defs defaults_defs host_defs Let_def)

lemma rising_classification: "classification SMA spec_host (rising st q) = CROSS_FROM_BOTTOM"
  unfolding classification_def rising_fast rising_slow
  by (simp add: state_defs study_defs defaults_defs host_defs Let_def)

lemma falling_facts:
  "\<not> SetDefaults (falling st q)"
  "GetBarHasClosedStatus (falling st q) = st"
  "PositionQuantity (GetTradePosition (falling st q)) = q"
  "NewOrder_of (falling st q) = example_order"
  by (simp_all add: NewOrder_of_def example_order_def state_defs study_defs defaults_defs Let_def
        eighty_quarter_ticks)

lemma falling_fast: "fast_series SMA spec_host (falling st q) = [3, 4, 13 / 3, 5, 11 / 3]"
  by (simp add: fast_series_eq falling_facts)
     (simp add: state_defs study_defs defaults_defs host_defs Let_def)

lemma falling_slow: "slow_series SMA spec_host (falling st q) = [3, 4, 13 / 3, 9 / 2, 19 / 5]"
  by (simp add: slow_series_eq falling_facts)
     (simp add: state_defs study_defs defaults_defs host_defs Let_def)

lemma falling_classification: "classification SMA spec_host (falling st q) = CROSS_FROM_TOP"
  unfolding classification_def falling_fast falling_slow
  by (simp add: state_defs study_defs defaults_defs host_defs Let_def)

lemma steady_facts:
  "\<not> SetDefaults (steady st q)"
  "GetBarHasClosedStatus (steady st q) = st"
  "PositionQuantity (GetTradePosition (steady st q)) = q"
  by (simp_all add: state_defs study_defs defaults_defs Let_def)

lemma steady_classification: "classification SMA spec_host (steady st q) = NO_CROSS"
  unfolding classification_def
  by (simp add: fast_series_eq slow_series_eq steady_facts)
     (simp add: state_defs study_defs defaults_defs host_defs Let_def)

lemma cents_facts:
  "\<not> SetDefaults cents"
  "GetBarHasClosedStatus cents = BHCS_BAR_HAS_CLOSED"
  "PositionQuantity (GetTradePosition cents) = 0"
  "GetInt (Input cents 5) = 80"
  "GetInt (Input cents 4) = 80"
  "TickSize cents = Finite (5368709 / 536870912)"
  "NewOrder_of cents = cents_order"
  by (simp_all add: cents_def cents_order_def NewOrder_of_def state_defs study_defs
        defaults_defs Let_def eighty_cent_ticks)

lemma cents_classification: "classification SMA spec_host cents = CROSS_FROM_BOTTOM"
proof -
  have "fast_series SMA spec_host cents = fast_series SMA spec_host (rising BHCS_BAR_HAS_CLOSED 0)"
    unfolding fast_series_eq [OF cents_facts(1)] fast_series_eq [OF rising_facts(1)]
    by (simp add: cents_def)
  moreover have
    "slow_series SMA spec_host cents = slow_series SMA spec_host (rising BHCS_BAR_HAS_CLOSED 0)"
    unfolding slow_series_eq [OF cents_facts(1)] slow_series_eq [OF rising_facts(1)]
    by (simp add: cents_def)
  moreover have "Index cents = Index (rising BHCS_BAR_HAS_CLOSED 0)"
    by (simp add: cents_def)
  ultimately show ?thesis
    using rising_classification [of BHCS_BAR_HAS_CLOSED 0] by (simp add: classification_def)
qed

lemma cents_requests: "requests SMA spec_host cents = [BuyEntry cents_order]"
  by (simp add: requests_eq decision_engine_cases cents_facts cents_classification)

subsection \<open>The averages of the specification\<close>

text \<open>
  Each of the four averages, as the specification describes it, writes at the current
  index a value that the samples up to this index and the length determine.
\<close>

lemma sample_take: "j \<le> i \<Longrightarrow> sample (take (Suc i) xs) j = sample xs j"
  by (simp add: sample_def)

lemma sample_agree:
  assumes "take (Suc i) xs = take (Suc i) ys" and "j \<le> i"
  shows "sample xs j = sample ys j"
  using assms sample_take [of j i xs] sample_take [of j i ys] by simp

lemma window_take: "window (take (Suc i) xs) i n = window xs i n"
  by (simp add: window_def Let_def take_drop min_def)

lemma ema_agree: "(\<And>j. j \<le> i \<Longrightarrow> x j = y j) \<Longrightarrow> ema a x i = ema a y i"
  by (induction i) simp_all

lemma wma_agree:
  assumes "\<And>j. j \<le> i \<Longrightarrow> x j = y j"
  shows "wma x i n = wma y i n"
proof -
  have e: "map (\<lambda>j. real (min n (Suc i) - j) * x (i - j)) [0..<min n (Suc i)]
      = map (\<lambda>j. real (min n (Suc i) - j) * y (i - j)) [0..<min n (Suc i)]"
    by (rule map_cong) (simp_all add: assms)
  show ?thesis unfolding wma_def Let_def by (simp only: e)
qed

lemma spec_host_causal:
  assumes "take (Suc i) In = take (Suc i) In'"
  shows "smoothing v spec_host In Out i Length = smoothing v spec_host In' Out i Length"
proof -
  have s: "sample In j = sample In' j" if "j \<le> i" for j
    using assms that by (rule sample_agree)
  show ?thesis
  proof (cases v)
    case SMA
    have "window In i (nat Length) = window In' i (nat Length)"
      using window_take [of i In "nat Length"] window_take [of i In' "nat Length"] assms by simp
    with SMA show ?thesis by (simp add: spec_host_def SimpleMovAvg_spec_def)
  next
    case EMA
    have "ema (alpha Length) (sample In) i = ema (alpha Length) (sample In') i"
      by (rule ema_agree) (rule s)
    with EMA show ?thesis by (simp add: spec_host_def ExponentialMovAvg_spec_def)
  next
    case ZLEMA
    have "ema (alpha Length) (zero_lag_input In Length) i
        = ema (alpha Length) (zero_lag_input In' Length) i"
      by (rule ema_agree) (simp add: zero_lag_input_def Let_def s)
    with ZLEMA show ?thesis by (simp add: spec_host_def ZeroLagEMA_spec_def)
  next
    case Hull
    have w: "wma (sample In) j n = wma (sample In') j n" if "j \<le> i" for j n
      using that by (intro wma_agree s) simp
    have "hma In (nat Length) i = hma In' (nat Length) i"
      unfolding hma_def Let_def by (rule wma_agree) (simp add: w)
    with Hull show ?thesis by (simp add: spec_host_def HullMovingAverage_spec_def)
  qed
qed

lemma round_sqrt_examples: "map round_sqrt [1, 2, 3, 6, 7, 9, 12, 13] = [1, 1, 2, 2, 3, 3, 3, 4]"
  by (simp add: round_sqrt_def upt_rec)

section \<open>The claims\<close>

text \<open>
  C2. In an evaluation at a bar close, when \<^verbatim>\<open>sc.CrossOver\<close> reports a cross from the
  bottom and the reported position quantity is negative, the requests are exactly: cancel
  all orders, flatten the position, submit a buy entry, in this order. With a cross from
  the top and a positive quantity they are exactly: cancel all orders, flatten the
  position, submit a sell entry. This holds for each of the four variants and every host.
\<close>

theorem C2_reversal_sequence:
  assumes "\<not> SetDefaults sc"
    and "GetBarHasClosedStatus sc = BHCS_BAR_HAS_CLOSED"
  shows "(classification v h sc = CROSS_FROM_BOTTOM \<and> PositionQuantity (GetTradePosition sc) < 0
           \<longrightarrow> requests v h sc = [CancelAllOrders, FlattenPosition, BuyEntry (NewOrder_of sc)])
       \<and> (classification v h sc = CROSS_FROM_TOP \<and> PositionQuantity (GetTradePosition sc) > 0
           \<longrightarrow> requests v h sc = [CancelAllOrders, FlattenPosition, SellEntry (NewOrder_of sc)])"
  using assms by (simp add: requests_eq decision_engine_cases)

theorem C2_reversal_sequence_witness:
  "\<not> SetDefaults (rising BHCS_BAR_HAS_CLOSED (- 1))
   \<and> GetBarHasClosedStatus (rising BHCS_BAR_HAS_CLOSED (- 1)) = BHCS_BAR_HAS_CLOSED
   \<and> classification SMA spec_host (rising BHCS_BAR_HAS_CLOSED (- 1)) = CROSS_FROM_BOTTOM
   \<and> PositionQuantity (GetTradePosition (rising BHCS_BAR_HAS_CLOSED (- 1))) < 0
   \<and> requests SMA spec_host (rising BHCS_BAR_HAS_CLOSED (- 1))
       = [CancelAllOrders, FlattenPosition, BuyEntry example_order]
   \<and> \<not> SetDefaults (falling BHCS_BAR_HAS_CLOSED 1)
   \<and> GetBarHasClosedStatus (falling BHCS_BAR_HAS_CLOSED 1) = BHCS_BAR_HAS_CLOSED
   \<and> classification SMA spec_host (falling BHCS_BAR_HAS_CLOSED 1) = CROSS_FROM_TOP
   \<and> PositionQuantity (GetTradePosition (falling BHCS_BAR_HAS_CLOSED 1)) > 0
   \<and> requests SMA spec_host (falling BHCS_BAR_HAS_CLOSED 1)
       = [CancelAllOrders, FlattenPosition, SellEntry example_order]"
proof -
  have r: "\<not> SetDefaults (rising BHCS_BAR_HAS_CLOSED (- 1))"
      "GetBarHasClosedStatus (rising BHCS_BAR_HAS_CLOSED (- 1)) = BHCS_BAR_HAS_CLOSED"
    by (simp_all add: rising_facts)
  have f: "\<not> SetDefaults (falling BHCS_BAR_HAS_CLOSED 1)"
      "GetBarHasClosedStatus (falling BHCS_BAR_HAS_CLOSED 1) = BHCS_BAR_HAS_CLOSED"
    by (simp_all add: falling_facts)
  show ?thesis
    using C2_reversal_sequence [OF r, of SMA spec_host] C2_reversal_sequence [OF f, of SMA spec_host]
    by (simp add: rising_facts rising_classification falling_facts falling_classification)
qed

text \<open>
  C3. In an evaluation at a bar close, cancel-all-orders and flatten-position are each
  requested exactly when the position opposes the signal: on a cross from the bottom
  exactly when the position quantity is negative, on a cross from the top exactly when it
  is positive. When the position is flat or already in the direction of the signal, the
  entry is the only request. Where a flatten is requested for a short position no sell
  entry is requested, and where it is requested for a long position no buy entry is.
\<close>

theorem C3_flatten_iff_opposing:
  assumes "\<not> SetDefaults sc"
    and "GetBarHasClosedStatus sc = BHCS_BAR_HAS_CLOSED"
  shows "(classification v h sc = CROSS_FROM_BOTTOM \<longrightarrow>
            (CancelAllOrders \<in> set (requests v h sc) \<longleftrightarrow> PositionQuantity (GetTradePosition sc) < 0)
          \<and> (FlattenPosition \<in> set (requests v h sc) \<longleftrightarrow> PositionQuantity (GetTradePosition sc) < 0)
          \<and> (\<not> PositionQuantity (GetTradePosition sc) < 0 \<longrightarrow>
                requests v h sc = [BuyEntry (NewOrder_of sc)]))
       \<and> (classification v h sc = CROSS_FROM_TOP \<longrightarrow>
            (CancelAllOrders \<in> set (requests v h sc) \<longleftrightarrow> PositionQuantity (GetTradePosition sc) > 0)
          \<and> (FlattenPosition \<in> set (requests v h sc) \<longleftrightarrow> PositionQuantity (GetTradePosition sc) > 0)
          \<and> (\<not> PositionQuantity (GetTradePosition sc) > 0 \<longrightarrow>
                requests v h sc = [SellEntry (NewOrder_of sc)]))
       \<and> (FlattenPosition \<in> set (requests v h sc) \<longrightarrow>
            (PositionQuantity (GetTradePosition sc) < 0 \<longrightarrow> (\<forall>ord. SellEntry ord \<notin> set (requests v h sc)))
          \<and> (PositionQuantity (GetTradePosition sc) > 0 \<longrightarrow> (\<forall>ord. BuyEntry ord \<notin> set (requests v h sc))))"
  using assms by (simp add: requests_eq decision_engine_cases)

theorem C3_flatten_iff_opposing_witness:
  "\<not> SetDefaults (rising BHCS_BAR_HAS_CLOSED (- 1))
   \<and> GetBarHasClosedStatus (rising BHCS_BAR_HAS_CLOSED (- 1)) = BHCS_BAR_HAS_CLOSED
   \<and> classification SMA spec_host (rising BHCS_BAR_HAS_CLOSED (- 1)) = CROSS_FROM_BOTTOM
   \<and> PositionQuantity (GetTradePosition (rising BHCS_BAR_HAS_CLOSED (- 1))) < 0
   \<and> FlattenPosition \<in> set (requests SMA spec_host (rising BHCS_BAR_HAS_CLOSED (- 1)))
   \<and> CancelAllOrders \<in> set (requests SMA spec_host (rising BHCS_BAR_HAS_CLOSED (- 1)))
   \<and> (\<forall>ord. SellEntry ord \<notin> set (requests SMA spec_host (rising BHCS_BAR_HAS_CLOSED (- 1))))
   \<and> \<not> SetDefaults (rising BHCS_BAR_HAS_CLOSED 1)
   \<and> GetBarHasClosedStatus (rising BHCS_BAR_HAS_CLOSED 1) = BHCS_BAR_HAS_CLOSED
   \<and> classification SMA spec_host (rising BHCS_BAR_HAS_CLOSED 1) = CROSS_FROM_BOTTOM
   \<and> \<not> PositionQuantity (GetTradePosition (rising BHCS_BAR_HAS_CLOSED 1)) < 0
   \<and> requests SMA spec_host (rising BHCS_BAR_HAS_CLOSED 1) = [BuyEntry example_order]
   \<and> \<not> SetDefaults (falling BHCS_BAR_HAS_CLOSED 1)
   \<and> GetBarHasClosedStatus (falling BHCS_BAR_HAS_CLOSED 1) = BHCS_BAR_HAS_CLOSED
   \<and> classification SMA spec_host (falling BHCS_BAR_HAS_CLOSED 1) = CROSS_FROM_TOP
   \<and> PositionQuantity (GetTradePosition (falling BHCS_BAR_HAS_CLOSED 1)) > 0
   \<and> FlattenPosition \<in> set (requests SMA spec_host (falling BHCS_BAR_HAS_CLOSED 1))
   \<and> CancelAllOrders \<in> set (requests SMA spec_host (falling BHCS_BAR_HAS_CLOSED 1))
   \<and> (\<forall>ord. BuyEntry ord \<notin> set (requests SMA spec_host (falling BHCS_BAR_HAS_CLOSED 1)))
   \<and> \<not> SetDefaults (falling BHCS_BAR_HAS_CLOSED 0)
   \<and> GetBarHasClosedStatus (falling BHCS_BAR_HAS_CLOSED 0) = BHCS_BAR_HAS_CLOSED
   \<and> classification SMA spec_host (falling BHCS_BAR_HAS_CLOSED 0) = CROSS_FROM_TOP
   \<and> \<not> PositionQuantity (GetTradePosition (falling BHCS_BAR_HAS_CLOSED 0)) > 0
   \<and> requests SMA spec_host (falling BHCS_BAR_HAS_CLOSED 0) = [SellEntry example_order]"
proof -
  have a: "\<not> SetDefaults (rising BHCS_BAR_HAS_CLOSED q)"
      "GetBarHasClosedStatus (rising BHCS_BAR_HAS_CLOSED q) = BHCS_BAR_HAS_CLOSED" for q
    by (simp_all add: rising_facts)
  have b: "\<not> SetDefaults (falling BHCS_BAR_HAS_CLOSED q)"
      "GetBarHasClosedStatus (falling BHCS_BAR_HAS_CLOSED q) = BHCS_BAR_HAS_CLOSED" for q
    by (simp_all add: falling_facts)
  show ?thesis
    using C3_flatten_iff_opposing [OF a, of SMA spec_host "- 1"]
      C3_flatten_iff_opposing [OF a, of SMA spec_host 1]
      C3_flatten_iff_opposing [OF b, of SMA spec_host 1]
      C3_flatten_iff_opposing [OF b, of SMA spec_host 0]
    by (simp add: rising_facts rising_classification falling_facts falling_classification)
qed

text \<open>
  C4. When \<^verbatim>\<open>sc.CrossOver\<close> reports no cross, an evaluation emits no request at all,
  whatever the position quantity and the bar status.
\<close>

theorem C4_no_cross_no_request:
  "classification v h sc = NO_CROSS \<longrightarrow> requests v h sc = []"
  by (simp add: requests_eq decision_engine_cases)

theorem C4_no_cross_no_request_witness:
  "classification SMA spec_host (steady BHCS_BAR_HAS_CLOSED (- 1)) = NO_CROSS
   \<and> requests SMA spec_host (steady BHCS_BAR_HAS_CLOSED (- 1)) = []
   \<and> classification SMA spec_host (steady BHCS_BAR_HAS_CLOSED 0) = NO_CROSS
   \<and> requests SMA spec_host (steady BHCS_BAR_HAS_CLOSED 0) = []
   \<and> classification SMA spec_host (steady BHCS_BAR_HAS_CLOSED 1) = NO_CROSS
   \<and> requests SMA spec_host (steady BHCS_BAR_HAS_CLOSED 1) = []"
  using C4_no_cross_no_request [of SMA spec_host "steady BHCS_BAR_HAS_CLOSED (- 1)"]
    C4_no_cross_no_request [of SMA spec_host "steady BHCS_BAR_HAS_CLOSED 0"]
    C4_no_cross_no_request [of SMA spec_host "steady BHCS_BAR_HAS_CLOSED 1"]
  by (simp add: steady_classification)

text \<open>
  C5. An evaluation emits requests only when the reported bar status is that the bar has
  closed: with any other status it emits nothing. An evaluation submits at most one
  entry, never a buy entry and a sell entry together.
\<close>

theorem C5_only_at_close_one_entry:
  "(GetBarHasClosedStatus sc \<noteq> BHCS_BAR_HAS_CLOSED \<longrightarrow> requests v h sc = [])
   \<and> length (filter is_entry (requests v h sc)) \<le> 1
   \<and> \<not> (\<exists>a b. BuyEntry a \<in> set (requests v h sc) \<and> SellEntry b \<in> set (requests v h sc))"
  by (simp add: requests_eq decision_engine_cases)

theorem C5_only_at_close_one_entry_witness:
  "GetBarHasClosedStatus (rising BHCS_BAR_HAS_NOT_CLOSED (- 1)) \<noteq> BHCS_BAR_HAS_CLOSED
   \<and> classification SMA spec_host (rising BHCS_BAR_HAS_NOT_CLOSED (- 1)) = CROSS_FROM_BOTTOM
   \<and> requests SMA spec_host (rising BHCS_BAR_HAS_NOT_CLOSED (- 1)) = []
   \<and> length (filter is_entry (requests SMA spec_host (rising BHCS_BAR_HAS_CLOSED (- 1)))) = 1"
proof -
  have "GetBarHasClosedStatus (rising BHCS_BAR_HAS_NOT_CLOSED (- 1)) \<noteq> BHCS_BAR_HAS_CLOSED"
    by (simp add: rising_facts)
  moreover have "requests SMA spec_host (rising BHCS_BAR_HAS_CLOSED (- 1))
      = [CancelAllOrders, FlattenPosition, BuyEntry example_order]"
    by (simp add: requests_eq decision_engine_cases rising_facts rising_classification)
  ultimately show ?thesis
    using C5_only_at_close_one_entry [of "rising BHCS_BAR_HAS_NOT_CLOSED (- 1)" SMA spec_host]
    by (simp add: rising_classification)
qed

text \<open>
  C6. Every order an evaluation submits has quantity 1, is a market order and is good till
  canceled. Its stop offset is the single-precision product of the stop ticks, input 5,
  converted to \<^verbatim>\<open>float\<close>, and the tick size; its target offset is the same product
  for the target ticks, input 4. The fields are therefore determined by the two inputs
  and the tick size alone, whatever the direction, the bar data and the position.
\<close>

theorem C6_order_fields:
  assumes "r \<in> set (requests v h sc)" and "order_of r = Some ord"
  shows "OrderQuantity ord = 1
       \<and> OrderType ord = SCT_ORDERTYPE_MARKET
       \<and> TimeInForce ord = SCT_TIF_GOOD_TILL_CANCELED
       \<and> Stop1Offset ord = float_mul (float_of_int (GetInt (Input sc 5))) (TickSize sc)
       \<and> Target1Offset ord = float_mul (float_of_int (GetInt (Input sc 4))) (TickSize sc)"
  using entry_order [OF assms] by (simp add: NewOrder_of_def)

theorem C6_order_fields_witness:
  "BuyEntry cents_order \<in> set (requests SMA spec_host cents)
   \<and> order_of (BuyEntry cents_order) = Some cents_order
   \<and> GetInt (Input cents 5) = 80
   \<and> GetInt (Input cents 4) = 80
   \<and> TickSize cents = Finite (5368709 / 536870912)
   \<and> OrderQuantity cents_order = 1
   \<and> OrderType cents_order = SCT_ORDERTYPE_MARKET
   \<and> TimeInForce cents_order = SCT_TIF_GOOD_TILL_CANCELED
   \<and> Stop1Offset cents_order = float_mul (float_of_int 80) (Finite (5368709 / 536870912))
   \<and> Target1Offset cents_order = float_mul (float_of_int 80) (Finite (5368709 / 536870912))
   \<and> BuyEntry example_order \<in> set (requests SMA spec_host (rising BHCS_BAR_HAS_CLOSED (- 1)))
   \<and> order_of (BuyEntry example_order) = Some example_order
   \<and> TickSize (rising BHCS_BAR_HAS_CLOSED (- 1)) = Finite (1 / 4)
   \<and> Stop1Offset example_order = Finite 20
   \<and> Target1Offset example_order = Finite 20"
proof -
  have m: "BuyEntry cents_order \<in> set (requests SMA spec_host cents)"
    by (simp add: cents_requests)
  have o: "order_of (BuyEntry cents_order) = Some cents_order"
    by simp
  have n: "BuyEntry example_order \<in> set (requests SMA spec_host (rising BHCS_BAR_HAS_CLOSED (- 1)))"
    by (simp add: requests_eq decision_engine_cases rising_facts rising_classification)
  have p: "order_of (BuyEntry example_order) = Some example_order"
    by simp
  have i: "GetInt (Input (rising BHCS_BAR_HAS_CLOSED (- 1)) 5) = 80"
      "GetInt (Input (rising BHCS_BAR_HAS_CLOSED (- 1)) 4) = 80"
      "TickSize (rising BHCS_BAR_HAS_CLOSED (- 1)) = Finite (1 / 4)"
    by (simp_all add: state_defs study_defs defaults_defs Let_def)
  show ?thesis
    using C6_order_fields [OF m o] C6_order_fields [OF n p] m n i cents_facts
    by (simp add: eighty_quarter_ticks)
qed

text \<open>
  The offsets are not the exact products. With 80 stop ticks and the tick size
  \<open>5368709 / 2 ^ 29\<close> the exact product \<open>26843545 / 2 ^ 25\<close> lies midway between two
  floats, and the order submitted carries the even one, \<open>3355443 / 2 ^ 22\<close>.
\<close>

theorem C6_exact_product_counterexample:
  "BuyEntry cents_order \<in> set (requests SMA spec_host cents)
   \<and> GetInt (Input cents 5) = 80
   \<and> TickSize cents = Finite (5368709 / 536870912)
   \<and> real_of_int 80 * (5368709 / 536870912) = 26843545 / 33554432
   \<and> Stop1Offset cents_order = Finite (3355443 / 4194304)
   \<and> Stop1Offset cents_order \<noteq> Finite (real_of_int 80 * (5368709 / 536870912))"
  by (simp add: cents_requests cents_facts) (simp add: cents_order_def)

text \<open>
  C9. Every order an evaluation submits carries a target of the kind limit and a stop of
  the kind trailing stop: the stop follows the price.
\<close>

theorem C9_attached_order_kinds:
  assumes "r \<in> set (requests v h sc)" and "order_of r = Some ord"
  shows "AttachedOrderTarget1Type ord = SCT_ORDERTYPE_LIMIT
       \<and> AttachedOrderStop1Type ord = SCT_ORDERTYPE_TRAILING_STOP"
  using entry_order [OF assms] by (simp add: NewOrder_of_def)

theorem C9_attached_order_kinds_witness:
  "SellEntry example_order \<in> set (requests SMA spec_host (falling BHCS_BAR_HAS_CLOSED 1))
   \<and> order_of (SellEntry example_order) = Some example_order
   \<and> AttachedOrderTarget1Type example_order = SCT_ORDERTYPE_LIMIT
   \<and> AttachedOrderStop1Type example_order = SCT_ORDERTYPE_TRAILING_STOP"
proof -
  have m: "SellEntry example_order \<in> set (requests SMA spec_host (falling BHCS_BAR_HAS_CLOSED 1))"
    by (simp add: requests_eq decision_engine_cases falling_facts falling_classification)
  have o: "order_of (SellEntry example_order) = Some example_order"
    by simp
  show ?thesis
    using C9_attached_order_kinds [OF m o] m by simp
qed

text \<open>
  C7. The classification of the specification is a cross from the bottom exactly when
  \<open>fastPrev \<le> slowPrev\<close> and \<open>fastCur > slowCur\<close>, a cross from the top exactly when
  \<open>fastPrev \<ge> slowPrev\<close> and \<open>fastCur < slowCur\<close>, and no cross exactly when neither
  holds; with the fast value equal to the slow value at both indices it is no cross.
\<close>

theorem C7_classify:
  "(classify fastPrev slowPrev fastCur slowCur = CROSS_FROM_BOTTOM
      \<longleftrightarrow> fastPrev \<le> slowPrev \<and> fastCur > slowCur)
   \<and> (classify fastPrev slowPrev fastCur slowCur = CROSS_FROM_TOP
      \<longleftrightarrow> fastPrev \<ge> slowPrev \<and> fastCur < slowCur)
   \<and> (classify fastPrev slowPrev fastCur slowCur = NO_CROSS
      \<longleftrightarrow> \<not> (fastPrev \<le> slowPrev \<and> fastCur > slowCur)
          \<and> \<not> (fastPrev \<ge> slowPrev \<and> fastCur < slowCur))
   \<and> (fastPrev = slowPrev \<and> fastCur = slowCur
      \<longrightarrow> classify fastPrev slowPrev fastCur slowCur = NO_CROSS)"
  by (auto simp add: classify_def)

theorem C7_classify_witness:
  "classify 4 (9 / 2) (16 / 3) (26 / 5) = CROSS_FROM_BOTTOM
   \<and> classify 5 (9 / 2) (11 / 3) (19 / 5) = CROSS_FROM_TOP
   \<and> classify 4 5 4 5 = NO_CROSS
   \<and> (4::real) = 4 \<and> classify 4 4 4 4 = NO_CROSS"
  using C7_classify [of 4 "9 / 2" "16 / 3" "26 / 5"] C7_classify [of 5 "9 / 2" "11 / 3" "19 / 5"]
    C7_classify [of 4 5 4 5] C7_classify [of 4 4 4 4]
  by simp

text \<open>
  C8. Any two of the four variants, evaluated on the same study interface with the same
  host, emit the same requests, with the same orders, whenever the fast series they
  leave coincide and the slow series they leave coincide.
\<close>

theorem C8_variants_equivalent:
  assumes "fast_series v1 h sc = fast_series v2 h sc"
    and "slow_series v1 h sc = slow_series v2 h sc"
  shows "requests v1 h sc = requests v2 h sc"
  using assms by (simp add: requests_eq classification_def)

lemma low_last_facts:
  "\<not> SetDefaults low_last"
  "GetBarHasClosedStatus low_last = BHCS_BAR_HAS_CLOSED"
  "PositionQuantity (GetTradePosition low_last) = - 1"
  "NewOrder_of low_last = example_order"
  "Index low_last = 1"
  by (simp_all add: NewOrder_of_def example_order_def state_defs study_defs defaults_defs Let_def
        eighty_quarter_ticks)

lemma low_last_fast:
  "fast_series EMA spec_host low_last = [10, 6]"
  "fast_series ZLEMA spec_host low_last = [10, 6]"
  by (simp_all add: fast_series_eq low_last_facts)
     (simp_all add: state_defs study_defs defaults_defs host_defs Let_def)

lemma low_last_slow:
  "slow_series EMA spec_host low_last = [11, 5]"
  "slow_series ZLEMA spec_host low_last = [11, 5]"
  by (simp_all add: slow_series_eq low_last_facts)
     (simp_all add: state_defs study_defs defaults_defs host_defs Let_def)

lemma low_last_requests:
  "requests EMA spec_host low_last = [CancelAllOrders, FlattenPosition, BuyEntry example_order]"
  by (simp add: requests_eq decision_engine_cases low_last_facts classification_def
        low_last_fast low_last_slow)
     (simp add: host_defs)

theorem C8_variants_equivalent_witness:
  "fast_series EMA spec_host low_last = fast_series ZLEMA spec_host low_last
   \<and> slow_series EMA spec_host low_last = slow_series ZLEMA spec_host low_last
   \<and> requests ZLEMA spec_host low_last
       = [CancelAllOrders, FlattenPosition, BuyEntry example_order]"
proof -
  have f: "fast_series EMA spec_host low_last = fast_series ZLEMA spec_host low_last"
    by (simp add: low_last_fast)
  have s: "slow_series EMA spec_host low_last = slow_series ZLEMA spec_host low_last"
    by (simp add: low_last_slow)
  show ?thesis
    using C8_variants_equivalent [OF f s] f s low_last_requests by simp
qed

text \<open>
  C10. Two study interfaces that agree on the inputs, the base data, the two subgraph
  arrays, the index, the tick size, the reported bar status, the reported position and
  the defaults flag lead every variant to the same requests, with the same orders, and
  to the same two series, whatever else differs between them.
\<close>

theorem C10_deterministic:
  assumes "SetDefaults sc = SetDefaults sc'"
    and "Input sc = Input sc'"
    and "BaseDataIn sc = BaseDataIn sc'"
    and "Data (Subgraph sc 0) = Data (Subgraph sc' 0)"
    and "Data (Subgraph sc 1) = Data (Subgraph sc' 1)"
    and "Index sc = Index sc'"
    and "TickSize sc = TickSize sc'"
    and "GetBarHasClosedStatus sc = GetBarHasClosedStatus sc'"
    and "GetTradePosition sc = GetTradePosition sc'"
  shows "requests v h sc = requests v h sc'
       \<and> fast_series v h sc = fast_series v h sc'
       \<and> slow_series v h sc = slow_series v h sc'"
proof (cases "SetDefaults sc")
  case True
  with assms show ?thesis
    by (simp add: requests_eq fast_series_defaults slow_series_defaults)
next
  case False
  with assms have "\<not> SetDefaults sc'" by simp
  with False assms show ?thesis
    by (simp add: requests_eq classification_def fast_series_eq slow_series_eq NewOrder_of_def)
qed

theorem C10_deterministic_witness:
  "SetDefaults (rising BHCS_BAR_HAS_CLOSED (- 1)) = SetDefaults relabelled
   \<and> Input (rising BHCS_BAR_HAS_CLOSED (- 1)) = Input relabelled
   \<and> BaseDataIn (rising BHCS_BAR_HAS_CLOSED (- 1)) = BaseDataIn relabelled
   \<and> Data (Subgraph (rising BHCS_BAR_HAS_CLOSED (- 1)) 0) = Data (Subgraph relabelled 0)
   \<and> Data (Subgraph (rising BHCS_BAR_HAS_CLOSED (- 1)) 1) = Data (Subgraph relabelled 1)
   \<and> Index (rising BHCS_BAR_HAS_CLOSED (- 1)) = Index relabelled
   \<and> TickSize (rising BHCS_BAR_HAS_CLOSED (- 1)) = TickSize relabelled
   \<and> GetBarHasClosedStatus (rising BHCS_BAR_HAS_CLOSED (- 1)) = GetBarHasClosedStatus relabelled
   \<and> GetTradePosition (rising BHCS_BAR_HAS_CLOSED (- 1)) = GetTradePosition relabelled
   \<and> rising BHCS_BAR_HAS_CLOSED (- 1) \<noteq> relabelled
   \<and> requests SMA spec_host relabelled = [CancelAllOrders, FlattenPosition, BuyEntry example_order]
   \<and> fast_series SMA spec_host relabelled = [6, 5, 14 / 3, 4, 16 / 3]
   \<and> slow_series SMA spec_host relabelled = [6, 5, 14 / 3, 9 / 2, 26 / 5]"
proof -
  have e: "SetDefaults (rising BHCS_BAR_HAS_CLOSED (- 1)) = SetDefaults relabelled"
    "Input (rising BHCS_BAR_HAS_CLOSED (- 1)) = Input relabelled"
    "BaseDataIn (rising BHCS_BAR_HAS_CLOSED (- 1)) = BaseDataIn relabelled"
    "Data (Subgraph (rising BHCS_BAR_HAS_CLOSED (- 1)) 0) = Data (Subgraph relabelled 0)"
    "Data (Subgraph (rising BHCS_BAR_HAS_CLOSED (- 1)) 1) = Data (Subgraph relabelled 1)"
    "Index (rising BHCS_BAR_HAS_CLOSED (- 1)) = Index relabelled"
    "TickSize (rising BHCS_BAR_HAS_CLOSED (- 1)) = TickSize relabelled"
    "GetBarHasClosedStatus (rising BHCS_BAR_HAS_CLOSED (- 1)) = GetBarHasClosedStatus relabelled"
    "GetTradePosition (rising BHCS_BAR_HAS_CLOSED (- 1)) = GetTradePosition relabelled"
    by (simp_all add: relabelled_def GetBarHasClosedStatus_def GetTradePosition_def)
  have d: "rising BHCS_BAR_HAS_CLOSED (- 1) \<noteq> relabelled"
  proof
    assume "rising BHCS_BAR_HAS_CLOSED (- 1) = relabelled"
    then have "MaximumPositionAllowed (rising BHCS_BAR_HAS_CLOSED (- 1)) = MaximumPositionAllowed relabelled"
      by simp
    then show False
      by (simp add: relabelled_def state_defs study_defs defaults_defs Let_def)
  qed
  have r: "requests SMA spec_host (rising BHCS_BAR_HAS_CLOSED (- 1))
      = [CancelAllOrders, FlattenPosition, BuyEntry example_order]"
    by (simp add: requests_eq decision_engine_cases rising_facts rising_classification)
  show ?thesis
    using C10_deterministic [OF e, of SMA spec_host] e d r rising_fast [of BHCS_BAR_HAS_CLOSED "- 1"]
      rising_slow [of BHCS_BAR_HAS_CLOSED "- 1"]
    by simp
qed

text \<open>
  C1. The fast series is not computed with the configured fast period. At the default
  configuration both periods are 9 and both series read the last prices; the evaluation
  computes the slow series with the period 9, input 1, and the fast series with the
  length 3, the integer of input 2, the input that selects the fast source data. The two
  series differ and an entry is submitted. Setting the fast period, input 0, to 2 leaves
  the fast series as it is.
\<close>

theorem C1_fast_length_is_input_2:
  "GetInt (Input (rising BHCS_BAR_HAS_CLOSED 0) 0) = 9
   \<and> GetInt (Input (rising BHCS_BAR_HAS_CLOSED 0) 1) = 9
   \<and> GetInputDataIndex (Input (rising BHCS_BAR_HAS_CLOSED 0) 2) = SC_LAST
   \<and> GetInputDataIndex (Input (rising BHCS_BAR_HAS_CLOSED 0) 3) = SC_LAST
   \<and> BaseDataIn (rising BHCS_BAR_HAS_CLOSED 0) SC_LAST = [6, 4, 4, 4, 8]
   \<and> Index (rising BHCS_BAR_HAS_CLOSED 0) = 4
   \<and> mean (window [6, 4, 4, 4, 8] 4 9) = 26 / 5
   \<and> mean (window [6, 4, 4, 4, 8] 4 3) = 16 / 3
   \<and> slow_series SMA spec_host (rising BHCS_BAR_HAS_CLOSED 0) ! 4 = 26 / 5
   \<and> fast_series SMA spec_host (rising BHCS_BAR_HAS_CLOSED 0) ! 4 = 16 / 3
   \<and> requests SMA spec_host (rising BHCS_BAR_HAS_CLOSED 0) = [BuyEntry example_order]
   \<and> fast_series SMA spec_host
        ((rising BHCS_BAR_HAS_CLOSED 0)
           \<lparr>Input := (Input (rising BHCS_BAR_HAS_CLOSED 0))
              (0 := SetInt 2 (Input (rising BHCS_BAR_HAS_CLOSED 0) 0))\<rparr>)
       = fast_series SMA spec_host (rising BHCS_BAR_HAS_CLOSED 0)"
  using rising_facts [of BHCS_BAR_HAS_CLOSED 0]
  by (simp add: rising_fast rising_slow requests_eq decision_engine_cases rising_classification
        mean_def window_def fast_series_ignores_fast_period)

end
